theory Spec2Isabelle
  imports Complex_Main
begin

section \<open>Values and maps of the Go program\<close>

text \<open>
  The service of \<^verbatim>\<open>src/unnamed/part_001\<close> (the last of the three iterations of the
  Customer.io to Segment forwarder) decodes JSON into \<^verbatim>\<open>map[string]interface{}\<close>.
  A value of type \<^verbatim>\<open>interface{}\<close> that \<^verbatim>\<open>encoding/json\<close> produces is nil (JSON null),
  a bool, a float64, a string, a slice or a map. Every float64 that a JSON number
  decodes to is a rational number.
\<close>

datatype interface_value =
    VNil
  | VBool bool
  | VFloat64 rat
  | VString string
  | VSlice "interface_value list"
  | VMap "(string \<times> interface_value) list"

text \<open>
  A Go map is a reference that may be nil: \<open>None\<close> is the nil map, \<open>Some m\<close> an
  allocated one. Reading a nil map, or a key that is absent, yields the zero value (nil
  for \<^verbatim>\<open>interface{}\<close>); \<^verbatim>\<open>delete\<close> on a nil map does nothing.
\<close>

type_synonym go_map = "(string \<rightharpoonup> interface_value) option"

definition map_index :: "go_map \<Rightarrow> string \<Rightarrow> interface_value" where
  "map_index m k =
     (case m of
        None \<Rightarrow> VNil
      | Some f \<Rightarrow> (case f k of None \<Rightarrow> VNil | Some v \<Rightarrow> v))"

definition map_delete :: "go_map \<Rightarrow> string \<Rightarrow> go_map" where
  "map_delete m k = (case m of None \<Rightarrow> None | Some f \<Rightarrow> Some (f(k := None)))"

definition has_key :: "go_map \<Rightarrow> string \<Rightarrow> bool" where
  "has_key m k = (case m of None \<Rightarrow> False | Some f \<Rightarrow> f k \<noteq> None)"

section \<open>Types of the service\<close>

record ConfigEnv =
  SegmentWriteKey :: string

record Config =
  Envs :: "string \<rightharpoonup> ConfigEnv"

text \<open>
  The pointer fields of \<^verbatim>\<open>Webhook\<close> are options. \<^verbatim>\<open>TimestampNil\<close> is a \<^verbatim>\<open>*int\<close>;
  \<^verbatim>\<open>int64(*ts)\<close> keeps its value on every platform, so the model holds the value as
  an \<open>int\<close>.
\<close>

record Webhook =
  EventSourceNil :: "string option"
  EventType :: string
  EventID :: string
  TimestampNil :: "int option"
  TimestampIsoNil :: "string option"
  Data :: go_map

text \<open>
  The fields of \<^verbatim>\<open>analytics.Track\<close> that the handler of \<^verbatim>\<open>/webhook\<close> fills in
  (\<open>Timestamp\<close> is the field of the embedded \<^verbatim>\<open>analytics.Message\<close>). The service never
  looks inside an \<^verbatim>\<open>analytics.Identify\<close>.
\<close>

record analytics_Track =
  UserId :: string
  Event :: string
  Properties :: go_map
  Context :: go_map
  Timestamp :: string

typedecl analytics_Identify

text \<open>
  What a handler reads of a request: the value of \<^verbatim>\<open>r.URL.Query().Get("env")\<close>
  (empty when the parameter is missing), the declared \<^verbatim>\<open>r.ContentLength\<close> (an int64,
  \<open>-1\<close> when the length is unknown), and the bytes that the one call of
  \<^verbatim>\<open>r.Body.Read\<close> has to offer.
\<close>

record Request =
  query_env :: string
  ContentLength :: int
  Body :: string

text \<open>
  A handler either writes a status and a body, or panics before it has written
  anything (the HTTP server recovers the panic and drops the connection).
\<close>

datatype outcome = Responded nat string | Panicked

text \<open>
  The calls made on the analytics client with a message. The client made by
  \<^verbatim>\<open>analytics.New(key)\<close> is identified by its write key.
\<close>

datatype call =
    Track_call string analytics_Track
  | Identify_call string analytics_Identify

text \<open>
  The library functions the service calls, whose code is not part of the repository,
  are parameters of the model: \<^verbatim>\<open>json.Unmarshal\<close> at the three pointer types it is
  used at (\<open>Inl\<close> carries the error's text, \<open>Inr None\<close> is a pointer left nil, as for the
  body \<^verbatim>\<open>null\<close>), the client's \<^verbatim>\<open>Track\<close> and \<^verbatim>\<open>Identify\<close> on a message that is
  not nil (the error's text, or \<open>None\<close> for a nil error), the offset of the process's
  time zone from UTC at a given second, in seconds, the second of \<^verbatim>\<open>time.Now()\<close>, and
  the quoting that \<^verbatim>\<open>%#v\<close> applies to a string.
\<close>

record library =
  json_Unmarshal_Webhook :: "string \<Rightarrow> string + Webhook option"
  json_Unmarshal_Track :: "string \<Rightarrow> string + analytics_Track option"
  json_Unmarshal_Identify :: "string \<Rightarrow> string + analytics_Identify option"
  Client_Track :: "string \<Rightarrow> analytics_Track \<Rightarrow> string option"
  Client_Identify :: "string \<Rightarrow> analytics_Identify \<Rightarrow> string option"
  Zone_offset :: "int \<Rightarrow> int"
  Now :: int
  Quote :: "string \<Rightarrow> string"

section \<open>The time format of the library\<close>

text \<open>
  \<^verbatim>\<open>time.Unix(s, 0).Format(time.RFC3339)\<close> writes the date and the clock of the second
  \<open>s\<close> in the local time zone, with the layout \<^verbatim>\<open>2006-01-02T15:04:05Z07:00\<close>. The date
  is the one of the proleptic Gregorian calendar: the day number is split into eras of
  400 years (146097 days, counted from the first of January of the year 0, which is
  719528 days before the first of January 1970), the year of the era and the month
  are found by stepping over whole years and months. The library computes in 64 bits
  and the model on unbounded integers; they agree wherever the library's sums do not
  overflow, which is so for every second whose year has four digits or five.
\<close>

definition leap_year :: "nat \<Rightarrow> bool" where
  "leap_year y = (y mod 4 = 0 \<and> (y mod 100 \<noteq> 0 \<or> y mod 400 = 0))"

definition days_in_month :: "nat \<Rightarrow> nat \<Rightarrow> nat" where
  "days_in_month y m =
     (if m = 2 then (if leap_year y then 29 else 28)
      else if m \<in> {4, 6, 9, 11} then 30
      else 31)"

definition year_length :: "nat \<Rightarrow> nat" where
  "year_length y = (if leap_year y then 366 else 365)"

function year_of_era :: "nat \<Rightarrow> nat \<Rightarrow> nat \<times> nat" where
  "year_of_era y n =
     (if n < year_length y then (y, n) else year_of_era (y + 1) (n - year_length y))"
  by pat_completeness auto
termination
  by (relation "measure snd") (auto simp add: year_length_def)

function month_of_year :: "nat \<Rightarrow> nat \<Rightarrow> nat \<Rightarrow> nat \<times> nat" where
  "month_of_year y m n =
     (if n < days_in_month y m then (m, n + 1)
      else month_of_year y (m + 1) (n - days_in_month y m))"
  by pat_completeness auto
termination
  by (relation "measure (\<lambda>(y, m, n). n)") (auto simp add: days_in_month_def)

text \<open>The year, the month and the day of a day number counted from 1970-01-01.\<close>

definition civil_date :: "int \<Rightarrow> int \<times> nat \<times> nat" where
  "civil_date days =
     (let n = days + 719528;
          era = n div 146097;
          (y, doy) = year_of_era 0 (nat (n mod 146097));
          (m, d) = month_of_year y 1 doy
      in (400 * era + int y, m, d))"

text \<open>
  \<^verbatim>\<open>appendInt(b, x, width)\<close> of the package \<^verbatim>\<open>time\<close>: the decimal digits of \<open>x\<close>,
  padded with zeros to the width, after a minus sign when \<open>x\<close> is negative. A year
  above 9999 takes more than four digits.
\<close>

definition digit_char :: "nat \<Rightarrow> char" where
  "digit_char k = ''0123456789'' ! k"

function decimal :: "nat \<Rightarrow> string" where
  "decimal n = (if n < 10 then [digit_char n] else decimal (n div 10) @ [digit_char (n mod 10)])"
  by pat_completeness auto
termination
  by (relation "measure id") auto

definition appendInt :: "int \<Rightarrow> nat \<Rightarrow> string" where
  "appendInt x width =
     (let ds = decimal (nat \<bar>x\<bar>)
      in (if x < 0 then ''-'' else []) @ replicate (width - length ds) (CHR ''0'') @ ds)"

text \<open>
  The zone of the layout, \<^verbatim>\<open>Z07:00\<close>: \<^verbatim>\<open>Z\<close> for the offset 0, else the sign, the
  hours and the minutes of the offset; \<^verbatim>\<open>offset / 60\<close> rounds towards zero.
\<close>

definition zone_suffix :: "int \<Rightarrow> string" where
  "zone_suffix offset =
     (if offset = 0 then ''Z''
      else
        (let zone = (if offset < 0 then - ((- offset) div 60) else offset div 60)
         in (if zone < 0 then ''-'' else ''+'') @ appendInt (\<bar>zone\<bar> div 60) 2 @ '':'' @
            appendInt (\<bar>zone\<bar> mod 60) 2))"

definition format_local :: "int \<Rightarrow> int \<Rightarrow> string" where
  "format_local s offset =
     (let local = s + offset;
          (year, month, day) = civil_date (local div 86400);
          clock = local mod 86400
      in appendInt year 4 @ ''-'' @ appendInt (int month) 2 @ ''-'' @ appendInt (int day) 2 @
         ''T'' @ appendInt (clock div 3600) 2 @ '':'' @ appendInt (clock mod 3600 div 60) 2 @
         '':'' @ appendInt (clock mod 60) 2 @ zone_suffix offset)"

definition Format_RFC3339 :: "library \<Rightarrow> int \<Rightarrow> string" where
  "Format_RFC3339 L s = format_local s (Zone_offset L s)"

section \<open>The methods of Webhook\<close>

definition EventSource :: "Webhook \<Rightarrow> string" where
  "EventSource w = (case EventSourceNil w of Some s \<Rightarrow> s | None \<Rightarrow> ''customerio'')"

definition TimestampRFC3339 :: "library \<Rightarrow> Webhook \<Rightarrow> string" where
  "TimestampRFC3339 L w =
     (case TimestampNil w of
        Some ts \<Rightarrow> Format_RFC3339 L ts
      | None \<Rightarrow>
          (case TimestampIsoNil w of
             Some ts \<Rightarrow> ts
           | None \<Rightarrow> Format_RFC3339 L (Now L)))"

section \<open>The actions Identify and Track\<close>

datatype Action =
    Identify "analytics_Identify option"
  | Track "analytics_Track option"

fun Unmarshal :: "library \<Rightarrow> Action \<Rightarrow> string \<Rightarrow> string option \<times> Action" where
  "Unmarshal L (Identify i) data =
     (case json_Unmarshal_Identify L data of
        Inl err \<Rightarrow> (Some err, Identify i)
      | Inr i' \<Rightarrow> (None, Identify i'))"
| "Unmarshal L (Track t) data =
     (case json_Unmarshal_Track L data of
        Inl err \<Rightarrow> (Some err, Track t)
      | Inr t' \<Rightarrow> (None, Track t'))"

text \<open>
  \<^verbatim>\<open>Send\<close> hands the decoded pointer to the client. The client's \<^verbatim>\<open>Track\<close> and
  \<^verbatim>\<open>Identify\<close> start by reading the fields of the message, so a nil pointer (the body
  \<^verbatim>\<open>null\<close>) makes them panic: \<open>None\<close>. Otherwise \<^verbatim>\<open>Send\<close> returns the client's error
  and the call that was made.
\<close>

fun Send :: "library \<Rightarrow> Action \<Rightarrow> string \<Rightarrow> (string option \<times> call list) option" where
  "Send L (Identify None) client = None"
| "Send L (Identify (Some i)) client =
     Some (Client_Identify L client i, [Identify_call client i])"
| "Send L (Track None) client = None"
| "Send L (Track (Some t)) client = Some (Client_Track L client t, [Track_call client t])"

section \<open>The handlers\<close>

text \<open>\<^verbatim>\<open>http.Error\<close> writes the status and the message followed by a newline.\<close>

definition http_Error :: "string \<Rightarrow> nat \<Rightarrow> outcome" where
  "http_Error msg code = Responded code (msg @ [CHR 0x0A])"

text \<open>
  \<^verbatim>\<open>buf := make([]byte, r.ContentLength); r.Body.Read(buf)\<close>: \<^verbatim>\<open>make\<close> panics on a
  negative length; the one \<^verbatim>\<open>Read\<close> copies at most \<^verbatim>\<open>len(buf)\<close> bytes and the rest of
  the buffer stays zero.
\<close>

definition read_body :: "Request \<Rightarrow> string option" where
  "read_body r =
     (if ContentLength r < 0 then None
      else
        (let n = nat (ContentLength r)
         in Some (take n (Body r) @ replicate (n - length (Body r)) (CHR 0x00))))"

definition unknown_environment :: "library \<Rightarrow> string \<Rightarrow> string" where
  "unknown_environment L env = ''Environment '' @ Quote L env @ '' does not exist''"

text \<open>
  \<^verbatim>\<open>handle\<close>, the handler of \<^verbatim>\<open>/webhook/identify\<close> and \<^verbatim>\<open>/webhook/track\<close>. It
  returns the outcome and the calls made on the client, in order. Log lines are left
  out.
\<close>

definition handle :: "library \<Rightarrow> Action \<Rightarrow> Config \<Rightarrow> Request \<Rightarrow> outcome \<times> call list" where
  "handle L action config r =
     (case Envs config (query_env r) of
        None \<Rightarrow> (http_Error (unknown_environment L (query_env r)) 400, [])
      | Some envConfig \<Rightarrow>
          (case read_body r of
             None \<Rightarrow> (Panicked, [])
           | Some buf \<Rightarrow>
               (case Unmarshal L action buf of
                  (Some err, action') \<Rightarrow> (Responded 406 ''bad request'', [])
                | (None, action') \<Rightarrow>
                    (case Send L action' (SegmentWriteKey envConfig) of
                       None \<Rightarrow> (Panicked, [])
                     | Some (Some err, calls) \<Rightarrow>
                         (http_Error (''action.Send failed: '' @ err) 500, calls)
                     | Some (None, calls) \<Rightarrow> (Responded 200 ''ok'', calls)))))"

text \<open>
  The chain of comparisons on \<^verbatim>\<open>webhookEventType\<close> in the handler of \<^verbatim>\<open>/webhook\<close>:
  \<open>Some name\<close> is the value of \<^verbatim>\<open>eventType\<close> after the chain (it starts as the raw event
  type), \<open>None\<close> a branch that writes 200 and returns.
\<close>

definition classify :: "string \<Rightarrow> string option" where
  "classify webhookEventType =
     (if webhookEventType = ''customer_unsubscribed'' then Some ''Email - unsubscribed''
      else if webhookEventType = ''email_converted'' then None
      else if webhookEventType = ''email_drafted'' then None
      else if webhookEventType = ''email_dropped'' then None
      else if webhookEventType = ''email_delivered'' then None
      else if webhookEventType = ''email_bounced'' then Some ''Email - email failed''
      else if webhookEventType = ''email_failed'' then Some ''Email - email failed''
      else if webhookEventType = ''email_spammed'' then Some ''Email - email failed''
      else if webhookEventType = ''email_sent'' then Some ''Email - email sent''
      else if webhookEventType = ''email_opened'' then Some ''Email - opened email''
      else if webhookEventType = ''email_clicked'' then Some ''Email - clicked email''
      else Some webhookEventType)"

text \<open>
  The handler of \<^verbatim>\<open>/webhook\<close> from the moment the webhook is decoded to a non-nil
  pointer: \<^verbatim>\<open>delete\<close>, the check of \<^verbatim>\<open>customer_id\<close>, the type assertion (which panics
  on a value that is not a string), the classification and the call of \<^verbatim>\<open>Track\<close>.
\<close>

definition forward_webhook :: "library \<Rightarrow> ConfigEnv \<Rightarrow> Webhook \<Rightarrow> outcome \<times> call list" where
  "forward_webhook L envConfig webhook0 =
     (let webhook = webhook0\<lparr>Data := map_delete (Data webhook0) ''variables''\<rparr>
      in if map_index (Data webhook) ''customer_id'' = VNil
         then (http_Error ''data.customer_id is nil'' 406, [])
         else
           (case map_index (Data webhook) ''customer_id'' of
              VString customerID \<Rightarrow>
                (case classify (EventType webhook) of
                   None \<Rightarrow> (Responded 200 ''ok'', [])
                 | Some eventType \<Rightarrow>
                     (let msg = \<lparr>UserId = customerID,
                                 Event = eventType,
                                 Properties = Data webhook,
                                 Context = Some [''event_id'' \<mapsto> VString (EventID webhook)],
                                 Timestamp = TimestampRFC3339 L webhook\<rparr>;
                          segment = SegmentWriteKey envConfig
                      in (case Client_Track L segment msg of
                            Some err \<Rightarrow>
                              (http_Error (''segment.Track failed: '' @ err) 500,
                               [Track_call segment msg])
                          | None \<Rightarrow>
                              (Responded 200 ''ok'', [Track_call segment msg]))))
            | _ \<Rightarrow> (Panicked, [])))"

text \<open>
  The handler of \<^verbatim>\<open>/webhook\<close>. A body that decodes to a nil pointer (the JSON
  \<^verbatim>\<open>null\<close>) makes \<^verbatim>\<open>webhook.Data\<close> dereference nil, which panics.
\<close>

definition webhook_handler :: "library \<Rightarrow> Config \<Rightarrow> Request \<Rightarrow> outcome \<times> call list" where
  "webhook_handler L config r =
     (case Envs config (query_env r) of
        None \<Rightarrow> (http_Error (unknown_environment L (query_env r)) 400, [])
      | Some envConfig \<Rightarrow>
          (case read_body r of
             None \<Rightarrow> (Panicked, [])
           | Some buf \<Rightarrow>
               (case json_Unmarshal_Webhook L buf of
                  Inl err \<Rightarrow> (Responded 406 ''bad request'', [])
                | Inr None \<Rightarrow> (Panicked, [])
                | Inr (Some webhook) \<Rightarrow> forward_webhook L envConfig webhook)))"

text \<open>The three routes that \<^verbatim>\<open>main\<close> registers.\<close>

datatype route = Route_webhook | Route_identify | Route_track

fun serve :: "library \<Rightarrow> Config \<Rightarrow> route \<Rightarrow> Request \<Rightarrow> outcome \<times> call list" where
  "serve L config Route_webhook r = webhook_handler L config r"
| "serve L config Route_identify r = handle L (Identify None) config r"
| "serve L config Route_track r = handle L (Track None) config r"

section \<open>What the claims speak of\<close>

text \<open>
  The rows of the classifier table of the specification (section 4.3): the event types
  it forwards under a fixed name, and the ones it suppresses.
\<close>

definition forwarded_table :: "(string \<times> string) list" where
  "forwarded_table =
     [(''customer_unsubscribed'', ''Email - unsubscribed''),
      (''email_bounced'', ''Email - email failed''),
      (''email_failed'', ''Email - email failed''),
      (''email_spammed'', ''Email - email failed''),
      (''email_sent'', ''Email - email sent''),
      (''email_opened'', ''Email - opened email''),
      (''email_clicked'', ''Email - clicked email'')]"

definition suppressed_types :: "string list" where
  "suppressed_types =
     [''email_converted'', ''email_drafted'', ''email_dropped'', ''email_delivered'']"

definition table_types :: "string list" where
  "table_types = map fst forwarded_table @ suppressed_types"

text \<open>The status a handler has written, if it has written one.\<close>

fun status :: "outcome \<Rightarrow> nat option" where
  "status (Responded code body) = Some code"
| "status Panicked = None"

text \<open>The event name and the user of a call of \<^verbatim>\<open>Track\<close>, and its properties.\<close>

fun call_event :: "call \<Rightarrow> string option" where
  "call_event (Track_call client t) = Some (Event t)"
| "call_event c = None"

fun call_user :: "call \<Rightarrow> string option" where
  "call_user (Track_call client t) = Some (UserId t)"
| "call_user c = None"

fun call_properties :: "call \<Rightarrow> go_map option" where
  "call_properties (Track_call client t) = Some (Properties t)"
| "call_properties c = None"

text \<open>
  A valid RFC 3339 timestamp (section 5.6 of the RFC, with the day of the month checked
  against the month as its section 5.7 asks):
  \<^verbatim>\<open>YYYY-MM-DDThh:mm:ss[.fraction](Z|+hh:mm|-hh:mm)\<close>.
\<close>

definition is_digit :: "char \<Rightarrow> bool" where
  "is_digit c = (c \<in> set ''0123456789'')"

definition digits :: "nat \<Rightarrow> string \<Rightarrow> bool" where
  "digits n cs = (length cs = n \<and> list_all is_digit cs)"

definition number :: "string \<Rightarrow> nat" where
  "number cs = foldl (\<lambda>n c. 10 * n + (of_char c - 48)) 0 cs"

definition valid_full_date :: "string \<Rightarrow> bool" where
  "valid_full_date s =
     (length s = 10 \<and> digits 4 (take 4 s) \<and> s ! 4 = CHR ''-'' \<and>
      digits 2 (take 2 (drop 5 s)) \<and> s ! 7 = CHR ''-'' \<and> digits 2 (drop 8 s) \<and>
      (let y = number (take 4 s); m = number (take 2 (drop 5 s)); d = number (drop 8 s)
       in 1 \<le> m \<and> m \<le> 12 \<and> 1 \<le> d \<and> d \<le> days_in_month y m))"

definition valid_partial_time :: "string \<Rightarrow> bool" where
  "valid_partial_time s =
     (length s = 8 \<and> digits 2 (take 2 s) \<and> s ! 2 = CHR '':'' \<and>
      digits 2 (take 2 (drop 3 s)) \<and> s ! 5 = CHR '':'' \<and> digits 2 (drop 6 s) \<and>
      number (take 2 s) \<le> 23 \<and> number (take 2 (drop 3 s)) \<le> 59 \<and>
      number (drop 6 s) \<le> 60)"

definition valid_time_offset :: "string \<Rightarrow> bool" where
  "valid_time_offset s =
     (s = ''Z'' \<or> s = ''z'' \<or>
      (length s = 6 \<and> s ! 0 \<in> {CHR ''+'', CHR ''-''} \<and> digits 2 (take 2 (drop 1 s)) \<and>
       s ! 3 = CHR '':'' \<and> digits 2 (drop 4 s) \<and>
       number (take 2 (drop 1 s)) \<le> 23 \<and> number (drop 4 s) \<le> 59))"

definition valid_rfc3339 :: "string \<Rightarrow> bool" where
  "valid_rfc3339 s =
     (20 \<le> length s \<and> valid_full_date (take 10 s) \<and> s ! 10 \<in> {CHR ''T'', CHR ''t''} \<and>
      valid_partial_time (take 8 (drop 11 s)) \<and>
      (let rest = drop 19 s
       in if hd rest = CHR ''.''
          then takeWhile is_digit (tl rest) \<noteq> [] \<and>
               valid_time_offset (dropWhile is_digit (tl rest))
          else valid_time_offset rest))"

text \<open>
  The seconds whose local date lies in the years 0000 to 9999: from
  0000-01-01T00:00:00 to 9999-12-31T23:59:59 of local time.
\<close>

definition four_digit_year :: "library \<Rightarrow> int \<Rightarrow> bool" where
  "four_digit_year L s =
     (- 62167219200 \<le> s + Zone_offset L s \<and> s + Zone_offset L s < 253402300800)"

text \<open>
  For the proofs about the calendar: the days of the years before a year of an era, and
  the days of a year from a month on.
\<close>

definition days_before_year :: "nat \<Rightarrow> nat" where
  "days_before_year y = 365 * y + (y + 3) div 4 + (y + 399) div 400 - (y + 99) div 100"

function days_from_month :: "nat \<Rightarrow> nat \<Rightarrow> nat" where
  "days_from_month y m = (if 12 < m then 0 else days_in_month y m + days_from_month y (m + 1))"
  by pat_completeness auto
termination
  by (relation "measure (\<lambda>(y, m). 13 - m)") auto

section \<open>Example requests\<close>

text \<open>
  A configuration with the one environment \<^verbatim>\<open>prod\<close>, and request bodies with the
  values that \<^verbatim>\<open>json.Unmarshal\<close> decodes them to.
\<close>

definition example_config :: Config where
  "example_config = \<lparr>Envs = [''prod'' \<mapsto> \<lparr>SegmentWriteKey = ''key-prod''\<rparr>]\<rparr>"

definition blank_webhook :: Webhook where
  "blank_webhook =
     \<lparr>EventSourceNil = None, EventType = [], EventID = [], TimestampNil = None,
      TimestampIsoNil = None, Data = None\<rparr>"

definition body_signup :: string where
  \<open>body_signup =
     ''{"event_source":"app","event_type":"signup","data":{"customer_id":"u1"}}''\<close>

definition webhook_signup :: Webhook where
  "webhook_signup =
     blank_webhook\<lparr>EventSourceNil := Some ''app'', EventType := ''signup'',
       Data := Some [''customer_id'' \<mapsto> VString ''u1'']\<rparr>"

definition body_sent :: string where
  \<open>body_sent =
     ''{"event_type":"email_sent","event_id":"e1","timestamp":1456790400,"data":{"customer_id":"u1","variables":{"a":"b"}}}''\<close>

definition webhook_sent :: Webhook where
  "webhook_sent =
     blank_webhook\<lparr>EventType := ''email_sent'', EventID := ''e1'',
       TimestampNil := Some 1456790400,
       Data := Some [''customer_id'' \<mapsto> VString ''u1'',
                     ''variables'' \<mapsto> VMap [(''a'', VString ''b'')]]\<rparr>"

definition body_delivered :: string where
  \<open>body_delivered = ''{"event_type":"email_delivered","data":{"customer_id":"u1"}}''\<close>

definition webhook_delivered :: Webhook where
  "webhook_delivered =
     blank_webhook\<lparr>EventType := ''email_delivered'',
       Data := Some [''customer_id'' \<mapsto> VString ''u1'']\<rparr>"

definition body_delivered_anonymous :: string where
  \<open>body_delivered_anonymous = ''{"event_type":"email_delivered","data":{}}''\<close>

definition webhook_delivered_anonymous :: Webhook where
  "webhook_delivered_anonymous =
     blank_webhook\<lparr>EventType := ''email_delivered'', Data := Some Map.empty\<rparr>"

definition body_numeric_customer :: string where
  \<open>body_numeric_customer = ''{"event_type":"email_sent","data":{"customer_id":42}}''\<close>

definition webhook_numeric_customer :: Webhook where
  "webhook_numeric_customer =
     blank_webhook\<lparr>EventType := ''email_sent'',
       Data := Some [''customer_id'' \<mapsto> VFloat64 42]\<rparr>"

definition body_empty_customer :: string where
  \<open>body_empty_customer = ''{"event_type":"email_sent","data":{"customer_id":""}}''\<close>

definition webhook_empty_customer :: Webhook where
  "webhook_empty_customer =
     blank_webhook\<lparr>EventType := ''email_sent'',
       Data := Some [''customer_id'' \<mapsto> VString []]\<rparr>"

definition webhook_iso :: Webhook where
  "webhook_iso =
     blank_webhook\<lparr>EventType := ''email_sent'', TimestampIsoNil := Some ''yesterday'',
       Data := Some [''customer_id'' \<mapsto> VString ''u1'']\<rparr>"

definition webhook_far_future :: Webhook where
  "webhook_far_future =
     blank_webhook\<lparr>EventType := ''email_sent'', TimestampNil := Some 253402300800,
       Data := Some [''customer_id'' \<mapsto> VString ''u1'']\<rparr>"

definition body_track :: string where
  \<open>body_track = ''{"userId":"u1","event":"email_delivered"}''\<close>

definition track_delivered :: analytics_Track where
  "track_delivered =
     \<lparr>UserId = ''u1'', Event = ''email_delivered'', Properties = None, Context = None,
      Timestamp = []\<rparr>"

definition example_webhooks :: "(string \<times> Webhook option) list" where
  "example_webhooks =
     [(body_signup, Some webhook_signup),
      (body_sent, Some webhook_sent),
      (body_delivered, Some webhook_delivered),
      (body_delivered_anonymous, Some webhook_delivered_anonymous),
      (body_numeric_customer, Some webhook_numeric_customer),
      (body_empty_customer, Some webhook_empty_customer),
      (''null'', None)]"

definition example_Unmarshal_Webhook :: "string \<Rightarrow> string + Webhook option" where
  "example_Unmarshal_Webhook buf =
     (case map_of example_webhooks buf of
        Some w \<Rightarrow> Inr w
      | None \<Rightarrow> Inl ''unexpected end of JSON input'')"

definition body_track_anonymous :: string where
  \<open>body_track_anonymous = ''{"event":"x"}''\<close>

definition track_anonymous :: analytics_Track where
  "track_anonymous =
     \<lparr>UserId = [], Event = ''x'', Properties = None, Context = None, Timestamp = []\<rparr>"

definition example_tracks :: "(string \<times> analytics_Track option) list" where
  "example_tracks =
     [(body_track, Some track_delivered),
      (body_track_anonymous, Some track_anonymous),
      (''null'', None)]"

definition example_Unmarshal_Track :: "string \<Rightarrow> string + analytics_Track option" where
  "example_Unmarshal_Track buf =
     (case map_of example_tracks buf of
        Some t \<Rightarrow> Inr t
      | None \<Rightarrow> Inl ''unexpected end of JSON input'')"

text \<open>
  The client's \<^verbatim>\<open>Track\<close> refuses a message without an event name and one without a
  user; none of the example messages has an anonymous id. A message it accepts is
  queued and the error is nil.
\<close>

definition missing_event_error :: string where
  "missing_event_error = ''You must pass 'event'.''"

definition missing_user_error :: string where
  "missing_user_error = ''You must pass either an 'anonymousId' or 'userId'.''"

definition example_Client_Track :: "string \<Rightarrow> analytics_Track \<Rightarrow> string option" where
  "example_Client_Track client msg =
     (if Event msg = [] then Some missing_event_error
      else if UserId msg = [] then Some missing_user_error
      else None)"

text \<open>
  The library of the examples: the decoders know the example bodies, the time zone is
  UTC, and the current time is the second 1456790400 (2016-03-01T00:00:00Z).
\<close>

definition example_library :: library where
  "example_library =
     \<lparr>json_Unmarshal_Webhook = example_Unmarshal_Webhook,
      json_Unmarshal_Track = example_Unmarshal_Track,
      json_Unmarshal_Identify = (\<lambda>buf. Inl ''unexpected end of JSON input''),
      Client_Track = example_Client_Track,
      Client_Identify = (\<lambda>client msg. None),
      Zone_offset = (\<lambda>s. 0),
      Now = 1456790400,
      Quote = (\<lambda>s. [CHR 0x22] @ s @ [CHR 0x22])\<rparr>"

definition post :: "string \<Rightarrow> string \<Rightarrow> Request" where
  "post env body = \<lparr>query_env = env, ContentLength = int (length body), Body = body\<rparr>"

section \<open>Properties\<close>

subsection \<open>Maps and the forwarding step\<close>

lemma map_index_delete_other: "k \<noteq> k' \<Longrightarrow> map_index (map_delete m k') k = map_index m k"
  by (simp add: map_index_def map_delete_def split: option.splits)

lemma has_key_delete: "\<not> has_key (map_delete m k) k"
  by (simp add: has_key_def map_delete_def split: option.splits)

lemma customer_id_after_delete:
  "map_index (map_delete m ''variables'') ''customer_id'' = map_index m ''customer_id''"
  by (rule map_index_delete_other) simp

lemma forward_webhook_forwarded:
  assumes "map_index (Data w) ''customer_id'' = VString s"
    and "classify (EventType w) = Some name"
  shows "forward_webhook L e w =
     ((case Client_Track L (SegmentWriteKey e)
              \<lparr>UserId = s, Event = name,
               Properties = map_delete (Data w) ''variables'',
               Context = Some [''event_id'' \<mapsto> VString (EventID w)],
               Timestamp = TimestampRFC3339 L w\<rparr> of
         None \<Rightarrow> Responded 200 ''ok''
       | Some err \<Rightarrow> http_Error (''segment.Track failed: '' @ err) 500),
      [Track_call (SegmentWriteKey e)
         \<lparr>UserId = s, Event = name,
          Properties = map_delete (Data w) ''variables'',
          Context = Some [''event_id'' \<mapsto> VString (EventID w)],
          Timestamp = TimestampRFC3339 L w\<rparr>])"
  using assms
  by (simp add: forward_webhook_def customer_id_after_delete TimestampRFC3339_def Let_def
      split: option.splits)

lemma forward_webhook_suppressed:
  assumes "map_index (Data w) ''customer_id'' = VString s"
    and "classify (EventType w) = None"
  shows "forward_webhook L e w = (Responded 200 ''ok'', [])"
  using assms by (simp add: forward_webhook_def customer_id_after_delete)

lemma forward_webhook_nil:
  assumes "map_index (Data w) ''customer_id'' = VNil"
  shows "forward_webhook L e w = (http_Error ''data.customer_id is nil'' 406, [])"
  using assms by (simp add: forward_webhook_def customer_id_after_delete)

lemma forward_webhook_not_string:
  assumes "map_index (Data w) ''customer_id'' \<noteq> VNil"
    and "\<forall>s. map_index (Data w) ''customer_id'' \<noteq> VString s"
  shows "forward_webhook L e w = (Panicked, [])"
  using assms
  by (cases "map_index (Data w) ''customer_id''")
     (simp_all add: forward_webhook_def customer_id_after_delete)

lemma forward_webhook_call:
  assumes "c \<in> set (snd (forward_webhook L e w))"
  shows "\<exists>s name. map_index (Data w) ''customer_id'' = VString s \<and>
           classify (EventType w) = Some name \<and>
           c = Track_call (SegmentWriteKey e)
                 \<lparr>UserId = s, Event = name,
                  Properties = map_delete (Data w) ''variables'',
                  Context = Some [''event_id'' \<mapsto> VString (EventID w)],
                  Timestamp = TimestampRFC3339 L w\<rparr>"
proof (cases "map_index (Data w) ''customer_id''")
  case (VString s)
  show ?thesis
  proof (cases "classify (EventType w)")
    case None
    with VString assms show ?thesis by (simp add: forward_webhook_suppressed)
  next
    case (Some name)
    with VString assms show ?thesis by (simp add: forward_webhook_forwarded)
  qed
next
  case VNil
  with assms show ?thesis by (simp add: forward_webhook_nil)
qed (use assms in \<open>simp_all add: forward_webhook_not_string\<close>)

lemma webhook_handler_decoded:
  assumes "Envs config (query_env r) = Some e" and "read_body r = Some buf"
    and "json_Unmarshal_Webhook L buf = Inr (Some w)"
  shows "webhook_handler L config r = forward_webhook L e w"
  using assms by (simp add: webhook_handler_def)

lemma table_types_eq:
  "table_types =
     [''customer_unsubscribed'', ''email_bounced'', ''email_failed'', ''email_spammed'',
      ''email_sent'', ''email_opened'', ''email_clicked'', ''email_converted'',
      ''email_drafted'', ''email_dropped'', ''email_delivered'']"
  by (simp add: table_types_def forwarded_table_def suppressed_types_def)

lemma classify_unknown: "t \<notin> set table_types \<Longrightarrow> classify t = Some t"
  unfolding table_types_eq classify_def set_simps insert_iff empty_iff de_Morgan_disj
  by (elim conjE) (simp only: if_False)

lemma classify_forwarded: "(t, name) \<in> set forwarded_table \<Longrightarrow> classify t = Some name"
  unfolding forwarded_table_def classify_def
  by (elim disjE | simp)+

lemma classify_suppressed: "t \<in> set suppressed_types \<Longrightarrow> classify t = None"
  by (auto simp add: suppressed_types_def classify_def)

lemma read_body_post: "read_body (post env body) = Some body"
  by (simp add: read_body_def post_def)

subsection \<open>The calendar and the time format\<close>

lemma year_of_era_stop: "n < year_length y \<Longrightarrow> year_of_era y n = (y, n)"
  by simp

lemma year_of_era_step:
  "year_length y \<le> n \<Longrightarrow> year_of_era y n = year_of_era (y + 1) (n - year_length y)"
  by simp

lemma month_of_year_stop: "n < days_in_month y m \<Longrightarrow> month_of_year y m n = (m, n + 1)"
  by simp

lemma month_of_year_step:
  "days_in_month y m \<le> n \<Longrightarrow>
     month_of_year y m n = month_of_year y (m + 1) (n - days_in_month y m)"
  by simp

lemma decimal_stop: "n < 10 \<Longrightarrow> decimal n = [digit_char n]"
  by simp

lemma decimal_step: "10 \<le> n \<Longrightarrow> decimal n = decimal (n div 10) @ [digit_char (n mod 10)]"
  by simp

lemma days_from_month_stop: "12 < m \<Longrightarrow> days_from_month y m = 0"
  by simp

lemma days_from_month_step:
  "m \<le> 12 \<Longrightarrow> days_from_month y m = days_in_month y m + days_from_month y (m + 1)"
  by simp

declare year_of_era.simps [simp del] month_of_year.simps [simp del] decimal.simps [simp del]
  days_from_month.simps [simp del]

lemma replicate_small: "replicate 3 x = [x, x, x]" "replicate 2 x = [x, x]"
  by (simp_all add: numeral_3_eq_3 numeral_2_eq_2)

lemmas calendar_eval = replicate_small
  year_of_era_stop year_of_era_step month_of_year_stop month_of_year_step
  decimal_stop decimal_step year_length_def leap_year_def days_in_month_def digit_char_def
  civil_date_def appendInt_def zone_suffix_def format_local_def Let_def


lemma year_days: "days_from_month y 1 = year_length y"
  by (simp add: days_from_month_stop days_from_month_step days_in_month_def year_length_def)

lemma ceil_div:
  "(y + k) div Suc k = y div Suc k + (if y mod Suc k = 0 then 0 else 1)"
proof -
  have r: "y mod Suc k < Suc k" by simp
  have "(y + k) div Suc k = y div Suc k + (y mod Suc k + k) div Suc k"
    by (simp add: div_add1_eq [of y k "Suc k"])
  moreover have "(y mod Suc k + k) div Suc k = (if y mod Suc k = 0 then 0 else 1)"
  proof (cases "y mod Suc k = 0")
    case True
    then show ?thesis by simp
  next
    case False
    with r have "Suc k \<le> y mod Suc k + k" "y mod Suc k + k < Suc k + Suc k" by linarith+
    then have "(y mod Suc k + k) div Suc k = 1"
      by (simp add: div_nat_eqI)
    with False show ?thesis by simp
  qed
  ultimately show ?thesis by simp
qed

lemma ceil4: "((y::nat) + 3) div 4 = y div 4 + (if y mod 4 = 0 then 0 else 1)"
  using ceil_div [of y 3] by simp

lemma ceil100: "((y::nat) + 99) div 100 = y div 100 + (if y mod 100 = 0 then 0 else 1)"
  using ceil_div [of y 99] by simp

lemma ceil400: "((y::nat) + 399) div 400 = y div 400 + (if y mod 400 = 0 then 0 else 1)"
  using ceil_div [of y 399] by simp


lemma days_before_year_step: "days_before_year (y + 1) = days_before_year y + year_length y"
proof -
  have q: "y div 100 \<le> y div 4" by (rule div_le_mono2) simp_all
  have m1: "y mod 4 = 0" if "y mod 100 = 0"
    using that mod_mod_cancel [of 4 100 y] by simp
  have m2: "y mod 100 = 0" if "y mod 400 = 0"
    using that mod_mod_cancel [of 100 400 y] by simp
  have s4: "(y + 1 + 3) div 4 = y div 4 + 1" by simp
  have s100: "(y + 1 + 99) div 100 = y div 100 + 1" by simp
  have s400: "(y + 1 + 399) div 400 = y div 400 + 1" by simp
  show ?thesis
    unfolding days_before_year_def year_length_def leap_year_def s4 s100 s400
      ceil4 [of y] ceil100 [of y] ceil400 [of y]
    using q m1 m2 by (auto split: if_splits)
qed

lemma days_before_year_Suc: "days_before_year (Suc y) = days_before_year y + year_length y"
  using days_before_year_step [of y] by simp

lemma days_before_year_mono: "a \<le> b \<Longrightarrow> days_before_year a \<le> days_before_year b"
proof (induction b)
  case 0
  then show ?case by simp
next
  case (Suc b)
  show ?case
  proof (cases "a = Suc b")
    case True
    then show ?thesis by simp
  next
    case False
    with Suc.prems have "a \<le> b" by simp
    then have "days_before_year a \<le> days_before_year b" by (rule Suc.IH)
    also have "\<dots> \<le> days_before_year (Suc b)" by (simp add: days_before_year_Suc)
    finally show ?thesis .
  qed
qed

lemma year_of_era_invariant:
  "days_before_year (fst (year_of_era y n)) + snd (year_of_era y n) = days_before_year y + n \<and>
   snd (year_of_era y n) < year_length (fst (year_of_era y n))"
proof (induction y n rule: year_of_era.induct)
  case (1 y n)
  show ?case
  proof (cases "n < year_length y")
    case True
    then show ?thesis by (simp add: year_of_era_stop)
  next
    case False
    then have le: "year_length y \<le> n" by simp
    from "1" [OF False] le show ?thesis
      by (simp add: year_of_era_step days_before_year_Suc)
  qed
qed

lemma year_of_era_bound:
  assumes "n < 146097"
  shows "fst (year_of_era 0 n) < 400"
proof (rule ccontr)
  assume "\<not> fst (year_of_era 0 n) < 400"
  then have "days_before_year 400 \<le> days_before_year (fst (year_of_era 0 n))"
    by (intro days_before_year_mono) simp
  moreover have "days_before_year 400 = 146097" by (simp add: days_before_year_def)
  moreover have "days_before_year 0 = 0" by (simp add: days_before_year_def)
  then have "days_before_year (fst (year_of_era 0 n)) \<le> n"
    using year_of_era_invariant [of 0 n] by simp
  ultimately show False using assms by simp
qed

lemma month_of_year_invariant:
  "n < days_from_month y m \<Longrightarrow>
     m \<le> fst (month_of_year y m n) \<and> fst (month_of_year y m n) \<le> 12 \<and>
     1 \<le> snd (month_of_year y m n) \<and>
     snd (month_of_year y m n) \<le> days_in_month y (fst (month_of_year y m n))"
proof (induction y m n rule: month_of_year.induct)
  case (1 y m n)
  have m: "m \<le> 12"
  proof (rule ccontr)
    assume "\<not> m \<le> 12"
    then have "days_from_month y m = 0" by (simp add: days_from_month_stop)
    with "1.prems" show False by simp
  qed
  show ?case
  proof (cases "n < days_in_month y m")
    case True
    with m show ?thesis by (simp add: month_of_year_stop)
  next
    case False
    then have le: "days_in_month y m \<le> n" by simp
    with "1.prems" m have "n - days_in_month y m < days_from_month y (m + 1)"
      by (simp add: days_from_month_step)
    from "1.IH" [OF False this] le show ?thesis
      by (simp add: month_of_year_step)
  qed
qed

lemma leap_year_era: "leap_year (400 * e + r) = leap_year r"
proof -
  have "(400 * e + r) mod 4 = r mod 4"
    using mod_mult_self2 [of r 4 "100 * e"] by (simp add: add.commute)
  moreover have "(400 * e + r) mod 100 = r mod 100"
    using mod_mult_self2 [of r 100 "4 * e"] by (simp add: add.commute)
  moreover have "(400 * e + r) mod 400 = r mod 400"
    using mod_mult_self2 [of r 400 e] by (simp add: add.commute)
  ultimately show ?thesis by (simp add: leap_year_def)
qed

lemma civil_date_valid:
  assumes lo: "0 \<le> days + 719528" and hi: "days + 719528 < 3652425"
    and c: "civil_date days = (y, m, d)"
  shows "0 \<le> y \<and> y < 10000 \<and> 1 \<le> m \<and> m \<le> 12 \<and> 1 \<le> d \<and> d \<le> days_in_month (nat y) m"
proof -
  define n where "n = days + 719528"
  define era where "era = n div 146097"
  define doe where "doe = nat (n mod 146097)"
  define yoe where "yoe = fst (year_of_era 0 doe)"
  define doy where "doy = snd (year_of_era 0 doe)"
  have "0 \<le> n div 146097 \<and> n div 146097 < 25"
    using lo hi unfolding n_def by arith
  then have era: "0 \<le> era" "era < 25" by (simp_all add: era_def)
  have doe: "doe < 146097" by (simp add: doe_def nat_less_iff)
  have yoe: "yoe < 400" unfolding yoe_def using doe by (rule year_of_era_bound)
  have doy: "doy < days_from_month yoe 1"
    unfolding year_days yoe_def doy_def using year_of_era_invariant [of 0 doe] by blast
  have y: "y = 400 * era + int yoe" and m: "m = fst (month_of_year yoe 1 doy)"
    and d: "d = snd (month_of_year yoe 1 doy)"
    using c
    by (simp_all add: civil_date_def Let_def n_def era_def doe_def yoe_def doy_def
        split: prod.splits)
  have leap: "days_in_month (nat y) m = days_in_month yoe m"
  proof -
    have "nat y = 400 * nat era + yoe" using era y by (simp add: nat_add_distrib nat_mult_distrib)
    then show ?thesis by (simp add: days_in_month_def leap_year_era)
  qed
  have md: "1 \<le> m \<and> m \<le> 12 \<and> 1 \<le> d \<and> d \<le> days_in_month yoe m"
    using month_of_year_invariant [OF doy] unfolding m d by simp
  have "0 \<le> y \<and> y < 10000" using era yoe y by simp
  with md leap show ?thesis by simp
qed


lemma digit_range:
  "k < 10 \<Longrightarrow> k = 0 \<or> k = 1 \<or> k = 2 \<or> k = 3 \<or> k = 4 \<or> k = 5 \<or> k = 6 \<or> k = 7 \<or> k = 8 \<or> k = (9::nat)"
  by arith

lemma is_digit_digit_char: "k < 10 \<Longrightarrow> is_digit (digit_char k)"
  unfolding is_digit_def digit_char_def by (rule nth_mem) simp

lemma of_char_digit_char: "k < 10 \<Longrightarrow> of_char (digit_char k) = (48 + k :: nat)"
  using digit_range [of k] by (auto simp add: digit_char_def)

lemma digits_2: "a < 10 \<Longrightarrow> b < 10 \<Longrightarrow> digits 2 [digit_char a, digit_char b]"
  by (simp add: digits_def is_digit_digit_char)

lemma number_2: "a < 10 \<Longrightarrow> b < 10 \<Longrightarrow> number [digit_char a, digit_char b] = 10 * a + b"
  by (simp add: number_def of_char_digit_char)

lemma digits_4:
  "a < 10 \<Longrightarrow> b < 10 \<Longrightarrow> c < 10 \<Longrightarrow> d < 10 \<Longrightarrow>
     digits 4 [digit_char a, digit_char b, digit_char c, digit_char d]"
  by (simp add: digits_def is_digit_digit_char)

lemma number_4:
  "a < 10 \<Longrightarrow> b < 10 \<Longrightarrow> c < 10 \<Longrightarrow> d < 10 \<Longrightarrow>
     number [digit_char a, digit_char b, digit_char c, digit_char d]
       = 1000 * a + 100 * b + 10 * c + d"
  by (simp add: number_def of_char_digit_char)

lemma decimal_2:
  assumes "n < 100"
  shows "replicate (2 - length (decimal n)) (CHR ''0'') @ decimal n
           = [digit_char (n div 10), digit_char (n mod 10)]"
proof (cases "n < 10")
  case True
  then show ?thesis by (simp add: decimal_stop digit_char_def)
next
  case False
  with assms have "n div 10 < 10" by simp
  with False show ?thesis by (simp add: decimal_step decimal_stop)
qed

lemma appendInt_2:
  assumes "0 \<le> x" and "x < 100"
  shows "appendInt x 2 = [digit_char (nat x div 10), digit_char (nat x mod 10)]"
proof -
  have "nat \<bar>x\<bar> = nat x" "nat x < 100" using assms by simp_all
  with assms show ?thesis by (simp add: appendInt_def Let_def decimal_2)
qed

lemma decimal_3:
  assumes "10 \<le> n" and "n < 1000"
  shows "replicate (3 - length (decimal n)) (CHR ''0'') @ decimal n
           = [digit_char (n div 100), digit_char (n div 10 mod 10), digit_char (n mod 10)]"
proof -
  have d: "n div 10 div 10 = n div 100" by (simp add: div_mult2_eq)
  have "n div 10 < 100" using assms by simp
  from decimal_2 [OF this] assms show ?thesis
    by (cases "n div 10 < 10")
      (simp_all add: decimal_step [of n] decimal_step [of "n div 10"] decimal_stop d
        digit_char_def)
qed


lemma decimal_4:
  assumes "n < 10000"
  shows "replicate (4 - length (decimal n)) (CHR ''0'') @ decimal n
           = [digit_char (n div 1000), digit_char (n div 100 mod 10),
              digit_char (n div 10 mod 10), digit_char (n mod 10)]"
proof -
  have d: "n div 10 div 100 = n div 1000" "n div 10 div 10 = n div 100"
    by (simp_all add: div_mult2_eq)
  have r: "replicate 3 (CHR ''0'') = ''000''" "replicate 2 (CHR ''0'') = ''00''"
    by (simp_all add: numeral_3_eq_3 numeral_2_eq_2)
  consider "n < 10" | "10 \<le> n" "n < 100" | "100 \<le> n"
    by linarith
  then show ?thesis
  proof cases
    case 1
    then show ?thesis by (simp add: decimal_stop digit_char_def r)
  next
    case 2
    then have "n div 10 < 10" by simp
    with 2 show ?thesis by (simp add: decimal_step [of n] decimal_stop digit_char_def r)
  next
    case 3
    then have "10 \<le> n div 10" "n div 10 < 1000" using assms by simp_all
    from decimal_3 [OF this] 3 show ?thesis
      by (simp add: decimal_step [of n] d)
  qed
qed

lemma appendInt_4:
  assumes "0 \<le> x" and "x < 10000"
  shows "appendInt x 4
           = [digit_char (nat x div 1000), digit_char (nat x div 100 mod 10),
              digit_char (nat x div 10 mod 10), digit_char (nat x mod 10)]"
proof -
  have "nat \<bar>x\<bar> = nat x" "nat x < 10000" using assms by simp_all
  with assms show ?thesis by (simp add: appendInt_def Let_def decimal_4)
qed

lemma zone_suffix_valid:
  assumes "\<bar>offset\<bar> < 86400"
  shows "valid_time_offset (zone_suffix offset) \<and> zone_suffix offset \<noteq> [] \<and>
         hd (zone_suffix offset) \<noteq> CHR ''.''"
proof (cases "offset = 0")
  case True
  then show ?thesis by (simp add: zone_suffix_def valid_time_offset_def)
next
  case False
  define zone where "zone = (if offset < 0 then - ((- offset) div 60) else offset div 60)"
  define h where "h = nat (\<bar>zone\<bar> div 60)"
  define m where "m = nat (\<bar>zone\<bar> mod 60)"
  have z: "\<bar>zone\<bar> = \<bar>offset\<bar> div 60"
  proof (cases "offset < 0")
    case True
    then have "0 \<le> (- offset) div 60" by (simp add: pos_imp_zdiv_nonneg_iff)
    with True show ?thesis by (simp add: zone_def)
  next
    case False
    then have "0 \<le> offset div 60" by (simp add: pos_imp_zdiv_nonneg_iff)
    with False show ?thesis by (simp add: zone_def)
  qed
  have zb: "0 \<le> \<bar>zone\<bar> div 60" "\<bar>zone\<bar> div 60 < 24" "0 \<le> \<bar>zone\<bar> mod 60" "\<bar>zone\<bar> mod 60 < 60"
    using assms unfolding z by arith+
  have hb: "h < 24" and mb: "m < 60" using zb by (simp_all add: h_def m_def nat_less_iff)
  have hs: "appendInt (\<bar>zone\<bar> div 60) 2 = [digit_char (h div 10), digit_char (h mod 10)]"
    using zb by (simp add: appendInt_2 h_def)
  have ms: "appendInt (\<bar>zone\<bar> mod 60) 2 = [digit_char (m div 10), digit_char (m mod 10)]"
    using zb by (simp add: appendInt_2 m_def)
  have s: "zone_suffix offset
             = (if zone < 0 then CHR ''-'' else CHR ''+'') #
               [digit_char (h div 10), digit_char (h mod 10), CHR '':'',
                digit_char (m div 10), digit_char (m mod 10)]"
    using False by (simp add: zone_suffix_def Let_def hs ms flip: zone_def)
  have dg: "h div 10 < 10" "h mod 10 < 10" "m div 10 < 10" "m mod 10 < 10"
    using hb mb by simp_all
  show ?thesis
    unfolding s valid_time_offset_def using hb mb dg
    by (simp add: digits_2 number_2)
qed


lemma digit_sum:
  "n = 10 * q1 + d0 \<Longrightarrow> q1 = 10 * q2 + d1 \<Longrightarrow> q2 = 10 * q3 + d2 \<Longrightarrow>
     1000 * q3 + 100 * d2 + 10 * d1 + d0 = (n::nat)"
  by simp

lemma decimal_sum:
  "1000 * (n div 1000) + 100 * (n div 100 mod 10) + 10 * (n div 10 mod 10) + n mod 10 = (n::nat)"
proof (rule digit_sum)
  show "n = 10 * (n div 10) + n mod 10" by simp
  have e1: "n div 100 = n div 10 div 10" and e2: "n div 1000 = n div 100 div 10"
    by (simp_all add: div_mult2_eq)
  show "n div 10 = 10 * (n div 100) + n div 10 mod 10"
    unfolding e1 by (rule mult_div_mod_eq [symmetric])
  show "n div 100 = 10 * (n div 1000) + n div 100 mod 10"
    unfolding e2 by (rule mult_div_mod_eq [symmetric])
qed

lemma format_local_valid:
  assumes lo: "- 62167219200 \<le> s + offset" and hi: "s + offset < 253402300800"
    and off: "\<bar>offset\<bar> < 86400"
  shows "valid_rfc3339 (format_local s offset)"
proof -
  define loc where "loc = s + offset"
  define clock where "clock = loc mod 86400"
  obtain y m d where c: "civil_date (loc div 86400) = (y, m, d)"
    by (cases "civil_date (loc div 86400)") auto
  have "0 \<le> loc div 86400 + 719528 \<and> loc div 86400 + 719528 < 3652425"
    using lo hi unfolding loc_def by arith
  then have date: "0 \<le> y" "y < 10000" "1 \<le> m" "m \<le> 12" "1 \<le> d"
      "d \<le> days_in_month (nat y) m"
    using civil_date_valid [OF _ _ c] by simp_all
  define hh where "hh = nat (clock div 3600)"
  define mi where "mi = nat (clock mod 3600 div 60)"
  define ss where "ss = nat (clock mod 60)"
  have cb: "0 \<le> clock div 3600 \<and> clock div 3600 < 24 \<and> 0 \<le> clock mod 3600 div 60 \<and>
            clock mod 3600 div 60 < 60 \<and> 0 \<le> clock mod 60 \<and> clock mod 60 < 60"
    unfolding clock_def by arith
  have tb: "hh < 24" "mi < 60" "ss < 60"
    using cb by (simp_all add: hh_def mi_def ss_def nat_less_iff)
  have mb: "int m < 100" "int d < 100" "0 \<le> int m" "0 \<le> int d"
    using date by (simp_all add: days_in_month_def split: if_splits)
  have db: "d < 32" using date by (simp add: days_in_month_def split: if_splits)
  have str: "format_local s offset
      = [digit_char (nat y div 1000), digit_char (nat y div 100 mod 10),
         digit_char (nat y div 10 mod 10), digit_char (nat y mod 10), CHR ''-'',
         digit_char (m div 10), digit_char (m mod 10), CHR ''-'',
         digit_char (d div 10), digit_char (d mod 10), CHR ''T'',
         digit_char (hh div 10), digit_char (hh mod 10), CHR '':'',
         digit_char (mi div 10), digit_char (mi mod 10), CHR '':'',
         digit_char (ss div 10), digit_char (ss mod 10)] @ zone_suffix offset"
    using cb date mb
    by (simp add: format_local_def Let_def c appendInt_4 appendInt_2 hh_def mi_def ss_def
        flip: loc_def clock_def)
  have yd: "nat y div 1000 < 10" "nat y div 100 mod 10 < 10" "nat y div 10 mod 10 < 10"
      "nat y mod 10 < 10"
    using date by simp_all
  have yn: "1000 * (nat y div 1000) + 100 * (nat y div 100 mod 10) + 10 * (nat y div 10 mod 10)
              + nat y mod 10 = nat y"
    by (rule decimal_sum)
  have dg: "m div 10 < 10" "m mod 10 < 10" "d div 10 < 10" "d mod 10 < 10"
      "hh div 10 < 10" "hh mod 10 < 10" "mi div 10 < 10" "mi mod 10 < 10"
      "ss div 10 < 10" "ss mod 10 < 10"
    using date db tb by simp_all
  have full: "valid_full_date
      [digit_char (nat y div 1000), digit_char (nat y div 100 mod 10),
       digit_char (nat y div 10 mod 10), digit_char (nat y mod 10), CHR ''-'',
       digit_char (m div 10), digit_char (m mod 10), CHR ''-'',
       digit_char (d div 10), digit_char (d mod 10)]"
    using date dg yd by (simp add: valid_full_date_def digits_4 digits_2 number_4 number_2 yn)
  have part: "valid_partial_time
      [digit_char (hh div 10), digit_char (hh mod 10), CHR '':'',
       digit_char (mi div 10), digit_char (mi mod 10), CHR '':'',
       digit_char (ss div 10), digit_char (ss mod 10)]"
    using tb dg by (simp add: valid_partial_time_def digits_2 number_2)
  from zone_suffix_valid [OF off] full part show ?thesis
    unfolding str valid_rfc3339_def
    by (cases "zone_suffix offset") (simp_all add: Let_def)
qed

lemma Format_RFC3339_valid:
  assumes "four_digit_year L s" and "\<bar>Zone_offset L s\<bar> < 86400"
  shows "valid_rfc3339 (Format_RFC3339 L s)"
  using assms unfolding Format_RFC3339_def four_digit_year_def
  by (intro format_local_valid) simp_all

subsection \<open>The example requests\<close>

lemma decode_signup: "example_Unmarshal_Webhook body_signup = Inr (Some webhook_signup)"
  by (simp add: example_Unmarshal_Webhook_def example_webhooks_def body_signup_def)

lemma decode_sent: "example_Unmarshal_Webhook body_sent = Inr (Some webhook_sent)"
  by (simp add: example_Unmarshal_Webhook_def example_webhooks_def body_signup_def body_sent_def)

lemma decode_delivered:
  "example_Unmarshal_Webhook body_delivered = Inr (Some webhook_delivered)"
  by (simp add: example_Unmarshal_Webhook_def example_webhooks_def body_signup_def
      body_sent_def body_delivered_def)

lemma decode_delivered_anonymous:
  "example_Unmarshal_Webhook body_delivered_anonymous = Inr (Some webhook_delivered_anonymous)"
  by (simp add: example_Unmarshal_Webhook_def example_webhooks_def body_signup_def
      body_sent_def body_delivered_def body_delivered_anonymous_def)

lemma decode_numeric_customer:
  "example_Unmarshal_Webhook body_numeric_customer = Inr (Some webhook_numeric_customer)"
  by (simp add: example_Unmarshal_Webhook_def example_webhooks_def body_signup_def
      body_sent_def body_delivered_def body_delivered_anonymous_def body_numeric_customer_def)

lemma decode_empty_customer:
  "example_Unmarshal_Webhook body_empty_customer = Inr (Some webhook_empty_customer)"
  by (simp add: example_Unmarshal_Webhook_def example_webhooks_def body_signup_def
      body_sent_def body_delivered_def body_delivered_anonymous_def body_numeric_customer_def
      body_empty_customer_def)

lemma decode_track: "example_Unmarshal_Track body_track = Inr (Some track_delivered)"
  by (simp add: example_Unmarshal_Track_def example_tracks_def body_track_def)

lemma decode_track_anonymous:
  "example_Unmarshal_Track body_track_anonymous = Inr (Some track_anonymous)"
  by (simp add: example_Unmarshal_Track_def example_tracks_def body_track_def
      body_track_anonymous_def)

lemma example_env: "Envs example_config ''prod'' = Some \<lparr>SegmentWriteKey = ''key-prod''\<rparr>"
  by (simp add: example_config_def)

lemma query_env_post: "query_env (post env body) = env"
  by (simp add: post_def)

lemma env_post_prod:
  "Envs example_config (query_env (post ''prod'' body)) = Some \<lparr>SegmentWriteKey = ''key-prod''\<rparr>"
  by (simp add: query_env_post example_env)

lemma example_library_simps:
  "json_Unmarshal_Webhook example_library = example_Unmarshal_Webhook"
  "json_Unmarshal_Track example_library = example_Unmarshal_Track"
  "Client_Track example_library = example_Client_Track"
  "Zone_offset example_library s = 0"
  "Now example_library = 1456790400"
  by (simp_all add: example_library_def)

lemma format_example: "Format_RFC3339 example_library 1456790400 = ''2016-03-01T00:00:00Z''"
  by (simp add: Format_RFC3339_def example_library_simps calendar_eval)

lemma format_far_future:
  "Format_RFC3339 example_library 253402300800 = ''10000-01-01T00:00:00Z''"
  by (simp add: Format_RFC3339_def example_library_simps calendar_eval)

lemma format_year_zero:
  "Format_RFC3339 example_library (- 62167219200) = ''0000-01-01T00:00:00Z''"
  by (simp add: Format_RFC3339_def example_library_simps calendar_eval)

lemma invalid_yesterday: "\<not> valid_rfc3339 ''yesterday''"
  by (simp add: valid_rfc3339_def)

lemma invalid_far_future: "\<not> valid_rfc3339 ''10000-01-01T00:00:00Z''"
  by (simp add: valid_rfc3339_def valid_full_date_def)

subsection \<open>The answers of the three routes\<close>

lemma serve_unknown_environment:
  assumes "Envs config (query_env r) = None"
  shows "serve L config route r = (http_Error (unknown_environment L (query_env r)) 400, [])"
  using assms by (cases route) (simp_all add: webhook_handler_def handle_def)

lemma serve_unknown_length:
  assumes "Envs config (query_env r) = Some envConfig" and "ContentLength r < 0"
  shows "serve L config route r = (Panicked, [])"
  using assms by (cases route) (simp_all add: webhook_handler_def handle_def read_body_def)

lemma webhook_decode_error:
  assumes "Envs config (query_env r) = Some envConfig" and "read_body r = Some buf"
    and "json_Unmarshal_Webhook L buf = Inl err"
  shows "webhook_handler L config r = (Responded 406 ''bad request'', [])"
  using assms by (simp add: webhook_handler_def)

lemma webhook_decoded_nil:
  assumes "Envs config (query_env r) = Some envConfig" and "read_body r = Some buf"
    and "json_Unmarshal_Webhook L buf = Inr None"
  shows "webhook_handler L config r = (Panicked, [])"
  using assms by (simp add: webhook_handler_def)

lemma handle_decoded_nil:
  assumes "Envs config (query_env r) = Some envConfig" and "read_body r = Some buf"
    and "json_Unmarshal_Track L buf = Inr None"
  shows "serve L config Route_track r = (Panicked, [])"
  using assms by (simp add: handle_def)

lemma handle_decode_error:
  assumes "Envs config (query_env r) = Some envConfig" and "read_body r = Some buf"
    and "fst (Unmarshal L action buf) = Some err"
  shows "handle L action config r = (Responded 406 ''bad request'', [])"
  using assms by (cases "Unmarshal L action buf") (simp add: handle_def)

subsection \<open>The claims\<close>

text \<open>
  Claim C1, as the code has it. On \<^verbatim>\<open>/webhook\<close>, with a configured environment and a
  body that decodes to a webhook whose event type is none of the eleven of the table,
  every call of \<^verbatim>\<open>Track\<close> carries the raw event type, unchanged, as its event name;
  the event source is not part of it. When \<^verbatim>\<open>data.customer_id\<close> is a string there is
  exactly one such call.
\<close>

theorem unknown_event_type_forwarded_raw:
  assumes env: "Envs config (query_env r) = Some envConfig"
    and body: "read_body r = Some buf"
    and dec: "json_Unmarshal_Webhook L buf = Inr (Some w)"
    and unknown: "EventType w \<notin> set table_types"
  shows "(\<forall>c \<in> set (snd (webhook_handler L config r)). call_event c = Some (EventType w)) \<and>
         ((\<exists>s. map_index (Data w) ''customer_id'' = VString s) \<longrightarrow>
            map call_event (snd (webhook_handler L config r)) = [Some (EventType w)])"
proof -
  have h: "webhook_handler L config r = forward_webhook L envConfig w"
    using env body dec by (rule webhook_handler_decoded)
  have cl: "classify (EventType w) = Some (EventType w)"
    using unknown by (rule classify_unknown)
  have "call_event c = Some (EventType w)" if "c \<in> set (snd (forward_webhook L envConfig w))" for c
    using forward_webhook_call [OF that] cl by auto
  moreover have "map call_event (snd (forward_webhook L envConfig w)) = [Some (EventType w)]"
    if "map_index (Data w) ''customer_id'' = VString s" for s
    using forward_webhook_forwarded [OF that cl] by simp
  ultimately show ?thesis unfolding h by blast
qed

text \<open>The event type \<^verbatim>\<open>signup\<close> of the source \<^verbatim>\<open>app\<close> goes out as \<^verbatim>\<open>signup\<close>.\<close>

theorem unknown_event_type_forwarded_raw_witness:
  "map call_event (snd (webhook_handler example_library example_config (post ''prod'' body_signup)))
     = [Some ''signup'']"
proof -
  have dec: "json_Unmarshal_Webhook example_library body_signup = Inr (Some webhook_signup)"
    by (simp add: example_library_simps decode_signup)
  have unknown: "EventType webhook_signup \<notin> set table_types"
    by (simp add: webhook_signup_def table_types_eq)
  have str: "\<exists>s. map_index (Data webhook_signup) ''customer_id'' = VString s"
    by (simp add: webhook_signup_def map_index_def)
  from unknown_event_type_forwarded_raw [OF env_post_prod read_body_post dec unknown] str
  show ?thesis by (simp add: webhook_signup_def)
qed

text \<open>
  Claim C1 as the specification states it fails: the name sent for that request is
  \<^verbatim>\<open>signup\<close>, where the claim asks for \<^verbatim>\<open>app:signup\<close>.
\<close>

theorem unknown_event_type_source_counterexample:
  "json_Unmarshal_Webhook example_library body_signup = Inr (Some webhook_signup) \<and>
   map call_event (snd (webhook_handler example_library example_config (post ''prod'' body_signup)))
     = [Some ''signup''] \<and>
   EventSource webhook_signup @ '':'' @ EventType webhook_signup = ''app:signup''"
  by (simp add: webhook_handler_def env_post_prod read_body_post example_library_simps
      decode_signup forward_webhook_def webhook_signup_def blank_webhook_def map_index_def
      map_delete_def classify_def EventSource_def Let_def example_Client_Track_def)

text \<open>
  Claim C2. On \<^verbatim>\<open>/webhook\<close>, with a configured environment and a body that decodes to
  a webhook whose event type is a forwarded row of the table, every call of
  \<^verbatim>\<open>Track\<close> carries the name of that row, and when \<^verbatim>\<open>data.customer_id\<close> is a string
  there is exactly one such call.
\<close>

theorem known_event_type_forwarded_by_table:
  assumes env: "Envs config (query_env r) = Some envConfig"
    and body: "read_body r = Some buf"
    and dec: "json_Unmarshal_Webhook L buf = Inr (Some w)"
    and known: "(EventType w, name) \<in> set forwarded_table"
  shows "(\<forall>c \<in> set (snd (webhook_handler L config r)). call_event c = Some name) \<and>
         ((\<exists>s. map_index (Data w) ''customer_id'' = VString s) \<longrightarrow>
            map call_event (snd (webhook_handler L config r)) = [Some name])"
proof -
  have h: "webhook_handler L config r = forward_webhook L envConfig w"
    using env body dec by (rule webhook_handler_decoded)
  have cl: "classify (EventType w) = Some name"
    using known by (rule classify_forwarded)
  have "call_event c = Some name" if "c \<in> set (snd (forward_webhook L envConfig w))" for c
    using forward_webhook_call [OF that] cl by auto
  moreover have "map call_event (snd (forward_webhook L envConfig w)) = [Some name]"
    if "map_index (Data w) ''customer_id'' = VString s" for s
    using forward_webhook_forwarded [OF that cl] by simp
  ultimately show ?thesis unfolding h by blast
qed

text \<open>The event type \<^verbatim>\<open>email_sent\<close> goes out as \<^verbatim>\<open>Email - email sent\<close>.\<close>

theorem known_event_type_forwarded_by_table_witness:
  "map call_event (snd (webhook_handler example_library example_config (post ''prod'' body_sent)))
     = [Some ''Email - email sent'']"
proof -
  have dec: "json_Unmarshal_Webhook example_library body_sent = Inr (Some webhook_sent)"
    by (simp add: example_library_simps decode_sent)
  have known: "(EventType webhook_sent, ''Email - email sent'') \<in> set forwarded_table"
    by (simp add: webhook_sent_def forwarded_table_def)
  have str: "\<exists>s. map_index (Data webhook_sent) ''customer_id'' = VString s"
    by (simp add: webhook_sent_def map_index_def)
  from known_event_type_forwarded_by_table [OF env_post_prod read_body_post dec known] str
  show ?thesis by simp
qed

text \<open>
  Claim C3, as the code has it. On \<^verbatim>\<open>/webhook\<close>, with a configured environment and a
  body that decodes to a webhook of a suppressed event type, no call is made on the
  analytics client; the answer is 200 with the body \<^verbatim>\<open>ok\<close> when \<^verbatim>\<open>data.customer_id\<close>
  is a string.
\<close>

theorem suppressed_type_no_call:
  assumes env: "Envs config (query_env r) = Some envConfig"
    and body: "read_body r = Some buf"
    and dec: "json_Unmarshal_Webhook L buf = Inr (Some w)"
    and suppressed: "EventType w \<in> set suppressed_types"
  shows "snd (webhook_handler L config r) = [] \<and>
         ((\<exists>s. map_index (Data w) ''customer_id'' = VString s) \<longrightarrow>
            webhook_handler L config r = (Responded 200 ''ok'', []))"
proof -
  have h: "webhook_handler L config r = forward_webhook L envConfig w"
    using env body dec by (rule webhook_handler_decoded)
  have cl: "classify (EventType w) = None"
    using suppressed by (rule classify_suppressed)
  have "snd (forward_webhook L envConfig w) = []"
  proof (cases "snd (forward_webhook L envConfig w)")
    case (Cons c cs)
    then have "c \<in> set (snd (forward_webhook L envConfig w))" by simp
    from forward_webhook_call [OF this] cl show ?thesis by simp
  qed simp
  moreover have "forward_webhook L envConfig w = (Responded 200 ''ok'', [])"
    if "map_index (Data w) ''customer_id'' = VString s" for s
    using that cl by (rule forward_webhook_suppressed)
  ultimately show ?thesis unfolding h by blast
qed

text \<open>The scenario of the specification: \<^verbatim>\<open>email_delivered\<close> for the customer \<^verbatim>\<open>u1\<close>.\<close>

theorem suppressed_type_no_call_witness:
  "webhook_handler example_library example_config (post ''prod'' body_delivered)
     = (Responded 200 ''ok'', [])"
proof -
  have dec: "json_Unmarshal_Webhook example_library body_delivered = Inr (Some webhook_delivered)"
    by (simp add: example_library_simps decode_delivered)
  have suppressed: "EventType webhook_delivered \<in> set suppressed_types"
    by (simp add: webhook_delivered_def suppressed_types_def)
  have str: "\<exists>s. map_index (Data webhook_delivered) ''customer_id'' = VString s"
    by (simp add: webhook_delivered_def map_index_def)
  from suppressed_type_no_call [OF env_post_prod read_body_post dec suppressed] str
  show ?thesis by simp
qed

text \<open>
  Claim C3 as the specification states it fails: a suppressed event whose data has no
  \<^verbatim>\<open>customer_id\<close> is answered with 406, since the check of \<^verbatim>\<open>customer_id\<close> comes
  before the classification.
\<close>

theorem suppressed_type_not_acknowledged_counterexample:
  "json_Unmarshal_Webhook example_library body_delivered_anonymous
     = Inr (Some webhook_delivered_anonymous) \<and>
   EventType webhook_delivered_anonymous = ''email_delivered'' \<and>
   fst (webhook_handler example_library example_config (post ''prod'' body_delivered_anonymous))
     = Responded 406 (''data.customer_id is nil'' @ [CHR 0x0A])"
  by (simp add: webhook_handler_def env_post_prod read_body_post example_library_simps
      decode_delivered_anonymous forward_webhook_def webhook_delivered_anonymous_def
      blank_webhook_def map_index_def map_delete_def http_Error_def)

text \<open>
  Claim C4 promises one of the answers 400, 406, 500 and 200 to every request. A body
  whose \<^verbatim>\<open>data.customer_id\<close> is a number decodes, passes the nil check and then fails
  the type assertion \<^verbatim>\<open>.(string)\<close>: the handler panics and writes no answer.
\<close>

theorem numeric_customer_id_panics:
  "json_Unmarshal_Webhook example_library body_numeric_customer
     = Inr (Some webhook_numeric_customer) \<and>
   serve example_library example_config Route_webhook (post ''prod'' body_numeric_customer)
     = (Panicked, [])"
  by (simp add: webhook_handler_def env_post_prod read_body_post example_library_simps
      decode_numeric_customer forward_webhook_def webhook_numeric_customer_def
      blank_webhook_def map_index_def map_delete_def)

text \<open>
  Claim C5, as the code has it. The user of every call of \<^verbatim>\<open>Track\<close> made on
  \<^verbatim>\<open>/webhook\<close> is the string held by \<^verbatim>\<open>data.customer_id\<close>, which the handler has
  checked to be present and not null. The handler does not check that it is not empty.
\<close>

theorem user_id_is_customer_id:
  assumes env: "Envs config (query_env r) = Some envConfig"
    and body: "read_body r = Some buf"
    and dec: "json_Unmarshal_Webhook L buf = Inr (Some w)"
  shows "\<forall>c \<in> set (snd (webhook_handler L config r)).
           \<exists>u. call_user c = Some u \<and> map_index (Data w) ''customer_id'' = VString u"
proof -
  have h: "webhook_handler L config r = forward_webhook L envConfig w"
    using env body dec by (rule webhook_handler_decoded)
  show ?thesis unfolding h
  proof
    fix c assume "c \<in> set (snd (forward_webhook L envConfig w))"
    from forward_webhook_call [OF this]
    show "\<exists>u. call_user c = Some u \<and> map_index (Data w) ''customer_id'' = VString u"
      by auto
  qed
qed

text \<open>The event of the customer \<^verbatim>\<open>u1\<close> goes out with the user \<^verbatim>\<open>u1\<close>.\<close>

theorem user_id_is_customer_id_witness:
  "map call_user (snd (webhook_handler example_library example_config (post ''prod'' body_sent)))
     = [Some ''u1''] \<and>
   map_index (Data webhook_sent) ''customer_id'' = VString ''u1''"
proof -
  have dec: "json_Unmarshal_Webhook example_library body_sent = Inr (Some webhook_sent)"
    by (simp add: example_library_simps decode_sent)
  have str: "map_index (Data webhook_sent) ''customer_id'' = VString ''u1''"
    by (simp add: webhook_sent_def map_index_def)
  have cl: "classify (EventType webhook_sent) = Some ''Email - email sent''"
    by (simp add: webhook_sent_def classify_def)
  have calls: "length (snd (webhook_handler example_library example_config (post ''prod'' body_sent))) = 1"
    by (simp add: webhook_handler_decoded [OF env_post_prod read_body_post dec]
        forward_webhook_forwarded [OF str cl])
  then obtain c where c: "snd (webhook_handler example_library example_config (post ''prod'' body_sent)) = [c]"
    by (cases "snd (webhook_handler example_library example_config (post ''prod'' body_sent))") auto
  from user_id_is_customer_id [OF env_post_prod read_body_post dec] c str
  show ?thesis by auto
qed

text \<open>
  Claim C5 as the specification states it fails: a \<^verbatim>\<open>customer_id\<close> that is the empty
  string passes the nil check, and the call of \<^verbatim>\<open>Track\<close> carries an empty user.
\<close>

theorem empty_user_id_counterexample:
  "json_Unmarshal_Webhook example_library body_empty_customer
     = Inr (Some webhook_empty_customer) \<and>
   map call_user
     (snd (webhook_handler example_library example_config (post ''prod'' body_empty_customer)))
     = [Some []]"
  by (simp add: webhook_handler_def env_post_prod read_body_post example_library_simps
      decode_empty_customer forward_webhook_def webhook_empty_customer_def
      blank_webhook_def map_index_def map_delete_def classify_def Let_def
      example_Client_Track_def)

text \<open>
  Claim C6, as the code has it. In a time zone whose offset from UTC stays under 24
  hours, the timestamp of a decoded webhook is a valid RFC 3339 string when the epoch
  field is set to a second whose local date lies in the years 0000 to 9999, and when
  neither field is set and the current time lies in those years. When only the ISO
  field is set, the timestamp is the string of the payload, passed on unchecked, and is
  valid exactly when that string is.
\<close>

theorem timestamp_valid_in_range:
  assumes zone: "\<forall>s. \<bar>Zone_offset L s\<bar> < 86400"
  shows "(\<forall>ts. TimestampNil w = Some ts \<and> four_digit_year L ts \<longrightarrow>
            valid_rfc3339 (TimestampRFC3339 L w)) \<and>
         (TimestampNil w = None \<and> TimestampIsoNil w = None \<and> four_digit_year L (Now L) \<longrightarrow>
            valid_rfc3339 (TimestampRFC3339 L w)) \<and>
         (\<forall>s. TimestampNil w = None \<and> TimestampIsoNil w = Some s \<longrightarrow>
            (valid_rfc3339 (TimestampRFC3339 L w) \<longleftrightarrow> valid_rfc3339 s))"
proof (intro conjI allI impI)
  fix ts assume "TimestampNil w = Some ts \<and> four_digit_year L ts"
  then show "valid_rfc3339 (TimestampRFC3339 L w)"
    using zone by (simp add: TimestampRFC3339_def Format_RFC3339_valid)
next
  assume "TimestampNil w = None \<and> TimestampIsoNil w = None \<and> four_digit_year L (Now L)"
  then show "valid_rfc3339 (TimestampRFC3339 L w)"
    using zone by (simp add: TimestampRFC3339_def Format_RFC3339_valid)
next
  fix s assume "TimestampNil w = None \<and> TimestampIsoNil w = Some s"
  then show "valid_rfc3339 (TimestampRFC3339 L w) \<longleftrightarrow> valid_rfc3339 s"
    by (simp add: TimestampRFC3339_def)
qed

text \<open>
  An epoch in 2016, no timestamp at all at a current time in 2016, and the ISO field
  \<^verbatim>\<open>yesterday\<close>, in UTC.
\<close>

theorem timestamp_valid_in_range_witness:
  "valid_rfc3339 (TimestampRFC3339 example_library webhook_sent) \<and>
   valid_rfc3339 (TimestampRFC3339 example_library blank_webhook) \<and>
   \<not> valid_rfc3339 (TimestampRFC3339 example_library webhook_iso)"
proof -
  have zone: "\<forall>s. \<bar>Zone_offset example_library s\<bar> < 86400"
    by (simp add: example_library_simps)
  have range: "four_digit_year example_library 1456790400"
    by (simp add: four_digit_year_def example_library_simps)
  have sent: "TimestampNil webhook_sent = Some 1456790400 \<and>
              four_digit_year example_library 1456790400"
    using range by (simp add: webhook_sent_def)
  have blank: "TimestampNil blank_webhook = None \<and> TimestampIsoNil blank_webhook = None \<and>
               four_digit_year example_library (Now example_library)"
    using range by (simp add: blank_webhook_def example_library_simps)
  have iso: "TimestampNil webhook_iso = None \<and> TimestampIsoNil webhook_iso = Some ''yesterday''"
    by (simp add: webhook_iso_def blank_webhook_def)
  from timestamp_valid_in_range [OF zone, of webhook_sent] sent
  have "valid_rfc3339 (TimestampRFC3339 example_library webhook_sent)" by blast
  moreover from timestamp_valid_in_range [OF zone, of blank_webhook] blank
  have "valid_rfc3339 (TimestampRFC3339 example_library blank_webhook)" by blast
  moreover from timestamp_valid_in_range [OF zone, of webhook_iso] iso invalid_yesterday
  have "\<not> valid_rfc3339 (TimestampRFC3339 example_library webhook_iso)" by blast
  ultimately show ?thesis by blast
qed

text \<open>
  Claim C6 as the specification states it fails twice: with only the ISO field set,
  to \<^verbatim>\<open>yesterday\<close>, the timestamp is \<^verbatim>\<open>yesterday\<close>; and the epoch 253402300800, the
  first second of the year 10000, is written with a year of five digits.
\<close>

theorem timestamp_invalid_counterexample:
  "TimestampRFC3339 example_library webhook_iso = ''yesterday'' \<and>
   \<not> valid_rfc3339 (TimestampRFC3339 example_library webhook_iso) \<and>
   TimestampRFC3339 example_library webhook_far_future = ''10000-01-01T00:00:00Z'' \<and>
   \<not> valid_rfc3339 (TimestampRFC3339 example_library webhook_far_future)"
  by (simp add: TimestampRFC3339_def webhook_iso_def webhook_far_future_def blank_webhook_def
      invalid_yesterday invalid_far_future format_far_future)

text \<open>
  Claim C7. The timestamp is the formatting of the epoch second when the epoch field is
  set, whether or not the ISO field is set too; the ISO string unchanged when only the
  ISO field is set; and the formatting of the current time when neither is set.
\<close>

theorem timestamp_resolution_order:
  "(TimestampNil w = Some ts \<longrightarrow> TimestampRFC3339 L w = Format_RFC3339 L ts) \<and>
   (TimestampNil w = None \<and> TimestampIsoNil w = Some s \<longrightarrow> TimestampRFC3339 L w = s) \<and>
   (TimestampNil w = None \<and> TimestampIsoNil w = None \<longrightarrow>
      TimestampRFC3339 L w = Format_RFC3339 L (Now L))"
  by (simp add: TimestampRFC3339_def)

text \<open>The three cases, the first with both fields set.\<close>

theorem timestamp_resolution_order_witness:
  "TimestampRFC3339 example_library
     (blank_webhook\<lparr>TimestampNil := Some 1456790400, TimestampIsoNil := Some ''2001-02-03T04:05:06Z''\<rparr>)
     = ''2016-03-01T00:00:00Z'' \<and>
   TimestampRFC3339 example_library (blank_webhook\<lparr>TimestampIsoNil := Some ''2001-02-03T04:05:06Z''\<rparr>)
     = ''2001-02-03T04:05:06Z'' \<and>
   TimestampRFC3339 example_library blank_webhook = Format_RFC3339 example_library (Now example_library)"
proof -
  let ?both = "blank_webhook\<lparr>TimestampNil := Some 1456790400,
                 TimestampIsoNil := Some ''2001-02-03T04:05:06Z''\<rparr>"
  let ?iso = "blank_webhook\<lparr>TimestampIsoNil := Some ''2001-02-03T04:05:06Z''\<rparr>"
  have a: "TimestampNil ?both = Some 1456790400" by simp
  have b: "TimestampNil ?iso = None \<and> TimestampIsoNil ?iso = Some ''2001-02-03T04:05:06Z''"
    by (simp add: blank_webhook_def)
  have c: "TimestampNil blank_webhook = None \<and> TimestampIsoNil blank_webhook = None"
    by (simp add: blank_webhook_def)
  from timestamp_resolution_order [where w = ?both and ts = 1456790400 and L = example_library] a
  have "TimestampRFC3339 example_library ?both = ''2016-03-01T00:00:00Z''"
    by (simp add: format_example)
  moreover from timestamp_resolution_order [where w = ?iso and s = "''2001-02-03T04:05:06Z''" and L = example_library] b
  have "TimestampRFC3339 example_library ?iso = ''2001-02-03T04:05:06Z''" by blast
  moreover from timestamp_resolution_order [where w = blank_webhook and L = example_library] c
  have "TimestampRFC3339 example_library blank_webhook
          = Format_RFC3339 example_library (Now example_library)" by blast
  ultimately show ?thesis by blast
qed

text \<open>
  Claim C8, as the code has it. On \<^verbatim>\<open>/webhook/track\<close>, with a configured environment
  and a body that decodes to a Track message, exactly that message is handed to the
  client's \<^verbatim>\<open>Track\<close>, whatever its event name; the answer is 200 with the body
  \<^verbatim>\<open>ok\<close> when the client returns no error, and 500 with the error's text when it does.
\<close>

theorem track_route_forwards_directly:
  assumes env: "Envs config (query_env r) = Some envConfig"
    and body: "read_body r = Some buf"
    and dec: "json_Unmarshal_Track L buf = Inr (Some t)"
  shows "serve L config Route_track r =
           ((case Client_Track L (SegmentWriteKey envConfig) t of
               None \<Rightarrow> Responded 200 ''ok''
             | Some err \<Rightarrow> http_Error (''action.Send failed: '' @ err) 500),
            [Track_call (SegmentWriteKey envConfig) t])"
  using assms by (simp add: handle_def split: option.splits)

text \<open>A Track message named \<^verbatim>\<open>email_delivered\<close>, a suppressed type, is forwarded.\<close>

theorem track_route_forwards_directly_witness:
  "Event track_delivered \<in> set suppressed_types \<and>
   serve example_library example_config Route_track (post ''prod'' body_track)
     = (Responded 200 ''ok'', [Track_call ''key-prod'' track_delivered])"
proof -
  have dec: "json_Unmarshal_Track example_library body_track = Inr (Some track_delivered)"
    by (simp add: example_library_simps decode_track)
  have "Event track_delivered \<in> set suppressed_types"
    by (simp add: track_delivered_def suppressed_types_def)
  with track_route_forwards_directly [OF env_post_prod read_body_post dec]
  show ?thesis
    by (simp add: example_library_simps example_Client_Track_def track_delivered_def)
qed

text \<open>
  Claim C8 as the specification states it fails: a Track body without a user decodes
  and is handed to the client, which refuses it, and the answer is 500.
\<close>

theorem track_route_send_failure_counterexample:
  "json_Unmarshal_Track example_library body_track_anonymous = Inr (Some track_anonymous) \<and>
   status (fst (serve example_library example_config Route_track
                  (post ''prod'' body_track_anonymous))) = Some 500 \<and>
   snd (serve example_library example_config Route_track (post ''prod'' body_track_anonymous))
     = [Track_call ''key-prod'' track_anonymous]"
  by (simp add: handle_def env_post_prod read_body_post example_library_simps
      decode_track_anonymous example_Client_Track_def track_anonymous_def http_Error_def)

text \<open>
  Claim C9. The properties of every call of \<^verbatim>\<open>Track\<close> made on \<^verbatim>\<open>/webhook\<close> are the
  decoded data with the key \<^verbatim>\<open>variables\<close> deleted, so they lack that key.
\<close>

theorem variables_removed_from_properties:
  assumes env: "Envs config (query_env r) = Some envConfig"
    and body: "read_body r = Some buf"
    and dec: "json_Unmarshal_Webhook L buf = Inr (Some w)"
  shows "\<forall>c \<in> set (snd (webhook_handler L config r)).
           \<exists>p. call_properties c = Some p \<and> p = map_delete (Data w) ''variables'' \<and>
               \<not> has_key p ''variables''"
proof -
  have h: "webhook_handler L config r = forward_webhook L envConfig w"
    using env body dec by (rule webhook_handler_decoded)
  show ?thesis unfolding h
  proof
    fix c assume "c \<in> set (snd (forward_webhook L envConfig w))"
    from forward_webhook_call [OF this]
    show "\<exists>p. call_properties c = Some p \<and> p = map_delete (Data w) ''variables'' \<and>
               \<not> has_key p ''variables''"
      by (auto simp add: has_key_delete)
  qed
qed

text \<open>A payload whose data has the key \<^verbatim>\<open>variables\<close>.\<close>

theorem variables_removed_from_properties_witness:
  "has_key (Data webhook_sent) ''variables'' \<and>
   map call_properties
     (snd (webhook_handler example_library example_config (post ''prod'' body_sent)))
     = [Some (map_delete (Data webhook_sent) ''variables'')] \<and>
   \<not> has_key (map_delete (Data webhook_sent) ''variables'') ''variables''"
proof -
  have dec: "json_Unmarshal_Webhook example_library body_sent = Inr (Some webhook_sent)"
    by (simp add: example_library_simps decode_sent)
  have str: "map_index (Data webhook_sent) ''customer_id'' = VString ''u1''"
    by (simp add: webhook_sent_def map_index_def)
  have cl: "classify (EventType webhook_sent) = Some ''Email - email sent''"
    by (simp add: webhook_sent_def classify_def)
  have key: "has_key (Data webhook_sent) ''variables''"
    by (simp add: webhook_sent_def has_key_def)
  have "length (snd (webhook_handler example_library example_config (post ''prod'' body_sent))) = 1"
    by (simp add: webhook_handler_decoded [OF env_post_prod read_body_post dec]
        forward_webhook_forwarded [OF str cl])
  then obtain c where c: "snd (webhook_handler example_library example_config (post ''prod'' body_sent)) = [c]"
    by (cases "snd (webhook_handler example_library example_config (post ''prod'' body_sent))") auto
  from variables_removed_from_properties [OF env_post_prod read_body_post dec] c key
  show ?thesis by auto
qed

text \<open>
  Claim C10. On \<^verbatim>\<open>/webhook\<close>, a decoded webhook of a suppressed event type whose
  \<^verbatim>\<open>data.customer_id\<close> is absent or null is answered with 406 and no call is made: the
  check of \<^verbatim>\<open>customer_id\<close> comes before the classification.
\<close>

theorem customer_id_checked_before_classification:
  assumes env: "Envs config (query_env r) = Some envConfig"
    and body: "read_body r = Some buf"
    and dec: "json_Unmarshal_Webhook L buf = Inr (Some w)"
    and suppressed: "EventType w \<in> set suppressed_types"
    and absent: "map_index (Data w) ''customer_id'' = VNil"
  shows "webhook_handler L config r
           = (Responded 406 (''data.customer_id is nil'' @ [CHR 0x0A]), [])"
  using webhook_handler_decoded [OF env body dec] forward_webhook_nil [OF absent]
  by (simp add: http_Error_def)

text \<open>The event \<^verbatim>\<open>email_delivered\<close> with empty data.\<close>

theorem customer_id_checked_before_classification_witness:
  "EventType webhook_delivered_anonymous \<in> set suppressed_types \<and>
   webhook_handler example_library example_config (post ''prod'' body_delivered_anonymous)
     = (Responded 406 (''data.customer_id is nil'' @ [CHR 0x0A]), [])"
proof -
  have dec: "json_Unmarshal_Webhook example_library body_delivered_anonymous
               = Inr (Some webhook_delivered_anonymous)"
    by (simp add: example_library_simps decode_delivered_anonymous)
  have suppressed: "EventType webhook_delivered_anonymous \<in> set suppressed_types"
    by (simp add: webhook_delivered_anonymous_def suppressed_types_def)
  have absent: "map_index (Data webhook_delivered_anonymous) ''customer_id'' = VNil"
    by (simp add: webhook_delivered_anonymous_def map_index_def)
  from customer_id_checked_before_classification
         [OF env_post_prod read_body_post dec suppressed absent] suppressed
  show ?thesis by simp
qed

end
